theory Spec2Isabelle
  imports Complex_Main "HOL-Library.Word" "HOL-Library.AList"
begin

chapter \<open>AI rules management: the orchestration core\<close>

text \<open>
  A shallow embedding of the TypeScript services of the repository: the notification
  service (subscriptions of WebSocket clients), the trend analyzer (update priority),
  the rule version manager (archive, deploy, rollback, cleanup), the two job queue
  services and the scheduler. JavaScript strings are modelled as \<^typ>\<open>string\<close>,
  a \<open>Map\<close> whose size or order is read as an association list, a \<open>Set\<close>
  as a set, JavaScript numbers that carry measurements as \<^typ>\<open>real\<close> (exact
  arithmetic, no rounding) and counters as \<^typ>\<open>nat\<close>.
\<close>

section \<open>NotificationService: client subscriptions\<close>























section \<open>TrendAnalyzer: the update priority\<close>

text \<open>
  The fields of \<open>TrendData\<close> that \<open>calculateUpdatePriority\<close> reads. Numbers are
  exact reals: the rounding of IEEE doubles and NaN are outside the model.
\<close>

record GitHubTrendData =
  totalRepos :: real
  averageStars :: real

record StackOverflowTrendData =
  totalQuestions :: real
  averageScore :: real

record PackageTrendData =
  downloads :: real
  weeklyGrowth :: real

record DocumentationChangeData =
  breakingChanges :: "string list"

record Trends =
  githubTrends :: GitHubTrendData
  stackOverflowTrends :: StackOverflowTrendData
  packageTrends :: PackageTrendData
  documentationChanges :: DocumentationChangeData






subsection \<open>The reference formula, from the specification's words\<close>











section \<open>RuleVersionManager: the artifact store\<close>

text \<open>
  A reading of the system clock (\<open>new Date()\<close>): \<open>getTime()\<close>,
  \<open>toISOString()\<close>, \<open>getFullYear()\<close> and \<open>getMonth()\<close>. The few
  readings inside one call are modelled as one.
\<close>

record DateReading =
  ms :: int
  iso :: string
  fullYear :: nat
  monthIndex :: nat

text \<open>\<open>interface RuleHistoryEntry\<close>, the entries of \<open><ruleType>-history.json\<close>.\<close>

record RuleHistoryEntry =
  version :: string
  date :: string
  author :: string
  changes :: "string list"
  filePath :: string

text \<open>The object written to \<open><ruleType>-deployment.json\<close>.\<close>

record DeploymentInfo =
  ruleType :: string
  currentVersion :: string
  lastDeployment :: string
  contentLength :: nat
  checksum :: string
  deployedBy :: string
  deploymentCount :: nat

record ArchiveFile =
  content :: string
  mtime :: int

text \<open>
  The three directories of the configuration (\<open>ruleBasePath\<close>, \<open>archivePath\<close>,
  \<open>metadataPath\<close>), taken as distinct. The rule directory maps a file name to its
  text; the archive directory is a list in the order \<open>readdir\<close> returns it; the
  two kinds of JSON files of the metadata directory are kept as the values that
  \<open>JSON.parse\<close> yields. \<open>unwritable\<close> holds the paths on which
  \<open>writeFile\<close> rejects; \<open>logged\<close> is what the logger received.
\<close>

datatype path =
    RulePath string
  | ArchivePath string
  | HistoryPath string
  | DeploymentPath string

datatype error = Error string | FsError path

datatype logEntry =
    Debug string
  | Info string
  | Warn string
  | ErrorLog string
  | CleanupCompleted nat nat int

record Store =
  ruleFiles :: "string \<rightharpoonup> string"
  archiveFiles :: "(string \<times> ArchiveFile) list"
  historyFiles :: "string \<rightharpoonup> RuleHistoryEntry list"
  deploymentFiles :: "string \<rightharpoonup> DeploymentInfo"
  unwritable :: "path set"
  logged :: "logEntry list"

definition emptyStore :: Store where
  "emptyStore = \<lparr>ruleFiles = Map.empty, archiveFiles = [], historyFiles = Map.empty,
                  deploymentFiles = Map.empty, unwritable = {}, logged = []\<rparr>"

definition logLine :: "logEntry \<Rightarrow> Store \<Rightarrow> Store" where
  "logLine entry s = s\<lparr>logged := logged s @ [entry]\<rparr>"

fun errorMessage :: "error \<Rightarrow> string" where
  "errorMessage (Error m) = m"
| "errorMessage (FsError p) = ''EACCES: permission denied''"

subsection \<open>Strings and numbers\<close>

definition startsWith :: "string \<Rightarrow> string \<Rightarrow> bool" where
  "startsWith s p = (take (length p) s = p)"

definition endsWith :: "string \<Rightarrow> string \<Rightarrow> bool" where
  "endsWith s p = (length p \<le> length s \<and> drop (length s - length p) s = p)"

definition digitChar :: "nat \<Rightarrow> char" where
  "digitChar d = ''0123456789abcdefghijklmnopqrstuvwxyz'' ! d"

text \<open>\<open>Number.prototype.toString(radix)\<close> on a natural number, for a radix from 2 to 36.\<close>

function toDigits :: "nat \<Rightarrow> nat \<Rightarrow> string" where
  "toDigits radix n =
     (if n < radix \<or> radix < 2 then [digitChar n]
      else toDigits radix (n div radix) @ [digitChar (n mod radix)])"
  by pat_completeness auto
termination
  by (relation "measure (\<lambda>(radix, n). n)") auto

declare toDigits.simps [simp del]

definition toStringRadix :: "nat \<Rightarrow> int \<Rightarrow> string" where
  "toStringRadix radix i =
     (if i < 0 then CHR ''-'' # toDigits radix (nat (- i)) else toDigits radix (nat i))"

text \<open>\<open>String(n).padStart(2, '0')\<close>.\<close>

definition padStart2 :: "string \<Rightarrow> string" where
  "padStart2 s = replicate (2 - length s) CHR ''0'' @ s"

text \<open>
  The version string of a job:
  \<open>`${new Date().getFullYear()}-${String(new Date().getMonth() + 1).padStart(2, '0')}`\<close>.
\<close>

definition versionOf :: "DateReading \<Rightarrow> string" where
  "versionOf now =
     toStringRadix 10 (int (fullYear now)) @ ''-''
       @ padStart2 (toStringRadix 10 (int (monthIndex now + 1)))"

subsection \<open>Private helpers of the class\<close>

definition getRuleFilePath :: "string \<Rightarrow> string" where
  "getRuleFilePath rt = (if endsWith rt ''.md'' then rt else rt @ ''.md'')"

definition addVersionHeader :: "string \<Rightarrow> string \<Rightarrow> string \<Rightarrow> DateReading \<Rightarrow> string" where
  "addVersionHeader text ver rt now =
     (''<!-- Rule Version: '' @ ver @ '' -->\<newline>''
        @ ''<!-- Generated: '' @ iso now @ '' -->\<newline>''
        @ ''<!-- Type: '' @ rt @ '' -->\<newline>''
        @ ''<!-- AI Rules Management System -->\<newline>\<newline>'')
     @ text"

text \<open>
  \<open>calculateChecksum\<close>: the loop
  \<open>checksum = ((checksum << 5) - checksum + content.charCodeAt(i)) & 0xffffffff\<close>
  keeps a signed 32-bit integer, printed in base 16.
\<close>

fun checksumLoop :: "string \<Rightarrow> 32 word \<Rightarrow> 32 word" where
  "checksumLoop [] acc = acc"
| "checksumLoop (c # rest) acc =
     checksumLoop rest (and (push_bit 5 acc - acc + of_nat (of_char c)) 0xffffffff)"

definition calculateChecksum :: "string \<Rightarrow> string" where
  "calculateChecksum text = toStringRadix 16 (sint (checksumLoop text 0))"

subsection \<open>Writing files\<close>

text \<open>
  \<open>writeFile\<close> on each kind of path: the promise rejects on an unwritable path and
  the store is left as it was; otherwise the file holds the new data.
\<close>

definition writeRuleFile :: "string \<Rightarrow> string \<Rightarrow> Store \<Rightarrow> error option \<times> Store" where
  "writeRuleFile name text s =
     (if RulePath name \<in> unwritable s then (Some (FsError (RulePath name)), s)
      else (None, s\<lparr>ruleFiles := (ruleFiles s)(name \<mapsto> text)\<rparr>))"

definition writeArchiveFile ::
  "string \<Rightarrow> string \<Rightarrow> DateReading \<Rightarrow> Store \<Rightarrow> error option \<times> Store" where
  "writeArchiveFile name text now s =
     (if ArchivePath name \<in> unwritable s then (Some (FsError (ArchivePath name)), s)
      else (None, s\<lparr>archiveFiles :=
                       AList.update name \<lparr>content = text, mtime = ms now\<rparr> (archiveFiles s)\<rparr>))"

subsection \<open>Metadata\<close>

text \<open>
  \<open>updateRuleMetadata\<close>: the history is read (empty when the file is missing), the
  new entry is pushed, only the last 50 entries are kept, and the file is written. Any
  failure is logged and swallowed.
\<close>

definition updateRuleMetadata ::
  "string \<Rightarrow> string \<Rightarrow> string \<Rightarrow> string \<Rightarrow> string \<Rightarrow> Store \<Rightarrow> Store" where
  "updateRuleMetadata rt ver archivedAt archiveFile reason s =
     (let history = (case historyFiles s rt of None \<Rightarrow> [] | Some h \<Rightarrow> h);
          newEntry = \<lparr>version = ver, date = archivedAt,
                       author = ''AI Rules Management System'',
                       changes = [''Archived rule with reason: '' @ reason],
                       filePath = archiveFile\<rparr>;
          pushed = history @ [newEntry];
          kept = (if length pushed > 50 then drop (length pushed - 50) pushed else pushed)
      in if HistoryPath rt \<in> unwritable s
         then logLine (ErrorLog (''Failed to update rule metadata for '' @ rt)) s
         else logLine (Debug (''Updated rule metadata for '' @ rt))
                (s\<lparr>historyFiles := (historyFiles s)(rt \<mapsto> kept)\<rparr>))"

definition getDeploymentCount :: "string \<Rightarrow> Store \<Rightarrow> nat" where
  "getDeploymentCount rt s =
     (case deploymentFiles s rt of None \<Rightarrow> 0 | Some info \<Rightarrow> deploymentCount info)"

definition updateDeploymentMetadata ::
  "string \<Rightarrow> string \<Rightarrow> string \<Rightarrow> nat \<Rightarrow> string \<Rightarrow> Store \<Rightarrow> Store" where
  "updateDeploymentMetadata rt ver deployedAt len digest s =
     (let deploymentInfo =
            \<lparr>ruleType = rt, currentVersion = ver, lastDeployment = deployedAt,
             contentLength = len, checksum = digest,
             deployedBy = ''AI Rules Management System'',
             deploymentCount = getDeploymentCount rt s + 1\<rparr>
      in if DeploymentPath rt \<in> unwritable s
         then logLine (ErrorLog (''Failed to update deployment metadata for '' @ rt)) s
         else logLine (Debug (''Updated deployment metadata for '' @ rt))
                (s\<lparr>deploymentFiles := (deploymentFiles s)(rt \<mapsto> deploymentInfo)\<rparr>))"

subsection \<open>archiveCurrentRule\<close>

definition archiveTimestamp :: "DateReading \<Rightarrow> string" where
  "archiveTimestamp now =
     map (\<lambda>c. if c = CHR '':'' \<or> c = CHR ''.'' then CHR ''-'' else c) (iso now)"

definition archiveCurrentRule ::
  "string \<Rightarrow> string \<Rightarrow> DateReading \<Rightarrow> Store \<Rightarrow> error option \<times> Store" where
  "archiveCurrentRule rt ver now s0 =
     (let s = logLine (Info (''Archiving current rule: '' @ rt @ '' to version '' @ ver)) s0;
          currentRulePath = getRuleFilePath rt
      in case ruleFiles s currentRulePath of
           None \<Rightarrow>
             (None, logLine (Warn (''No current rule found for '' @ rt @ '', skipping archive'')) s)
         | Some currentContent \<Rightarrow>
             (let archiveFileName = rt @ ''-'' @ ver @ ''-'' @ archiveTimestamp now @ ''.md''
              in case writeArchiveFile archiveFileName currentContent now s of
                   (Some e, s1) \<Rightarrow>
                     (Some e, logLine (ErrorLog (''Failed to archive rule: '' @ rt)) s1)
                 | (None, s1) \<Rightarrow>
                     (None,
                      logLine (Info (''Rule archived successfully: '' @ rt))
                        (updateRuleMetadata rt ver (iso now) archiveFileName
                           ''scheduled_update'' s1))))"

subsection \<open>deployNewRule\<close>

text \<open>
  The store after each \<open>await\<close> of \<open>deployNewRule\<close>: at the call, after
  \<open>writeFile(rulePath, versionedContent)\<close>, and after
  \<open>updateDeploymentMetadata\<close>. Other code, a reader of the rule file among it, runs
  at these points.
\<close>

definition deployNewRuleTrace ::
  "string \<Rightarrow> string \<Rightarrow> string \<Rightarrow> DateReading \<Rightarrow> Store \<Rightarrow> Store list" where
  "deployNewRuleTrace rt text ver now s0 =
     (let s = logLine (Info (''Deploying new rule: '' @ rt @ '' version '' @ ver)) s0;
          rulePath = getRuleFilePath rt;
          versionedContent = addVersionHeader text ver rt now
      in case writeRuleFile rulePath versionedContent s of
           (Some e, s1) \<Rightarrow> [s0, logLine (ErrorLog (''Failed to deploy rule: '' @ rt)) s1]
         | (None, s1) \<Rightarrow>
             [s0, s1,
              logLine (Info (''Rule deployed successfully: '' @ rt))
                (updateDeploymentMetadata rt ver (iso now) (length versionedContent)
                   (calculateChecksum versionedContent) s1)])"

definition deployNewRule ::
  "string \<Rightarrow> string \<Rightarrow> string \<Rightarrow> DateReading \<Rightarrow> Store \<Rightarrow> error option \<times> Store" where
  "deployNewRule rt text ver now s0 =
     (let s = logLine (Info (''Deploying new rule: '' @ rt @ '' version '' @ ver)) s0;
          rulePath = getRuleFilePath rt;
          versionedContent = addVersionHeader text ver rt now
      in case writeRuleFile rulePath versionedContent s of
           (Some e, s1) \<Rightarrow> (Some e, logLine (ErrorLog (''Failed to deploy rule: '' @ rt)) s1)
         | (None, s1) \<Rightarrow>
             (None,
              logLine (Info (''Rule deployed successfully: '' @ rt))
                (updateDeploymentMetadata rt ver (iso now) (length versionedContent)
                   (calculateChecksum versionedContent) s1)))"

text \<open>
  The callers' sequence (\<open>processRuleGeneration\<close>, the \<open>generate-rules\<close>
  processor): \<open>await archiveCurrentRule(...); await deployNewRule(...)\<close>. A throw of
  the first skips the second.
\<close>

definition archiveThenDeploy ::
  "string \<Rightarrow> string \<Rightarrow> string \<Rightarrow> DateReading \<Rightarrow> Store \<Rightarrow> error option \<times> Store" where
  "archiveThenDeploy rt text ver now s =
     (case archiveCurrentRule rt ver now s of
        (Some e, s1) \<Rightarrow> (Some e, s1)
      | (None, s1) \<Rightarrow> deployNewRule rt text ver now s1)"

fun deployAll ::
  "string \<Rightarrow> (string \<times> string \<times> DateReading) list \<Rightarrow> Store \<Rightarrow> error option \<times> Store" where
  "deployAll rt [] s = (None, s)"
| "deployAll rt ((text, ver, now) # rest) s =
     (case archiveThenDeploy rt text ver now s of
        (Some e, s1) \<Rightarrow> (Some e, s1)
      | (None, s1) \<Rightarrow> deployAll rt rest s1)"

subsection \<open>getRuleHistory\<close>

text \<open>
  The entries of the history file, most recent first: a stable sort on
  \<open>new Date(entry.date).getTime()\<close>, descending. The parser of dates is a
  parameter.
\<close>

definition getRuleHistory :: "string \<Rightarrow> (string \<Rightarrow> int) \<Rightarrow> Store \<Rightarrow> RuleHistoryEntry list" where
  "getRuleHistory rt getTime s =
     (case historyFiles s rt of
        None \<Rightarrow> []
      | Some history \<Rightarrow> sort_key (\<lambda>entry. - getTime (date entry)) history)"

subsection \<open>rollbackToVersion\<close>

definition archiveMatches :: "string \<Rightarrow> string \<Rightarrow> string \<Rightarrow> bool" where
  "archiveMatches rt ver file =
     (startsWith file (rt @ ''-'' @ ver @ ''-'') \<and> endsWith file ''.md'')"


subsection \<open>cleanupOldArchives\<close>

text \<open>
  The loop over the archive directory: a file whose name does not end in \<open>.md\<close> is
  skipped; a file older than the cutoff is logged and counted. The store is threaded
  through the loop as the source's loop body sees it.
\<close>

fun cleanupLoop :: "int \<Rightarrow> (string \<times> ArchiveFile) list \<Rightarrow> nat \<times> Store \<Rightarrow> nat \<times> Store" where
  "cleanupLoop cutoff [] acc = acc"
| "cleanupLoop cutoff ((filename, file) # rest) (deletedCount, s) =
     (if \<not> endsWith filename ''.md'' then cleanupLoop cutoff rest (deletedCount, s)
      else if mtime file < cutoff
      then cleanupLoop cutoff rest
             (deletedCount + 1, logLine (Debug (''Would delete old archive: '' @ filename)) s)
      else cleanupLoop cutoff rest (deletedCount, s))"

text \<open>
  \<open>cutoffDate.setDate(cutoffDate.getDate() - retentionDays)\<close> is taken as
  \<open>retentionDays\<close> days of 86400000 milliseconds before now.
\<close>

definition cutoffDate :: "int \<Rightarrow> DateReading \<Rightarrow> int" where
  "cutoffDate retentionDays now = ms now - retentionDays * 86400000"

definition cleanupOldArchives :: "int \<Rightarrow> DateReading \<Rightarrow> Store \<Rightarrow> error option \<times> Store" where
  "cleanupOldArchives retentionDays now s0 =
     (let s = logLine (Info ''Cleaning up archives'') s0;
          counted = cleanupLoop (cutoffDate retentionDays now) (archiveFiles s) (0, s)
      in (None,
          logLine (CleanupCompleted (length (archiveFiles s)) (fst counted) retentionDays)
            (snd counted)))"

text \<open>
  When the recorded deployment describes the active rule file: the checksum and the
  length in \<open><ruleType>-deployment.json\<close> are those of the file's text.
\<close>

definition artifactConsistent :: "string \<Rightarrow> Store \<Rightarrow> bool" where
  "artifactConsistent rt s =
     (case ruleFiles s (getRuleFilePath rt) of
        None \<Rightarrow> True
      | Some text \<Rightarrow>
          (case deploymentFiles s rt of
             None \<Rightarrow> False
           | Some info \<Rightarrow>
               checksum info = calculateChecksum text \<and> contentLength info = length text))"

subsection \<open>Observations on a store\<close>

definition historyOf :: "string \<Rightarrow> Store \<Rightarrow> RuleHistoryEntry list" where
  "historyOf rt s = (case historyFiles s rt of None \<Rightarrow> [] | Some h \<Rightarrow> h)"

text \<open>Two stores hold the same files: rules, archives, histories and deployment records.\<close>

definition sameFiles :: "Store \<Rightarrow> Store \<Rightarrow> bool" where
  "sameFiles s s' =
     (ruleFiles s' = ruleFiles s \<and> archiveFiles s' = archiveFiles s
      \<and> historyFiles s' = historyFiles s \<and> deploymentFiles s' = deploymentFiles s)"

definition oldArchive :: "int \<Rightarrow> string \<times> ArchiveFile \<Rightarrow> bool" where
  "oldArchive cutoff entry = (endsWith (fst entry) ''.md'' \<and> mtime (snd entry) < cutoff)"

subsection \<open>Example inputs\<close>

definition january :: DateReading where
  "january = \<lparr>ms = 1735689600000, iso = ''2025-01-01T00:00:00.000Z'',
              fullYear = 2025, monthIndex = 0\<rparr>"

definition july :: DateReading where
  "july = \<lparr>ms = 1751328000000, iso = ''2025-07-01T00:00:00.000Z'',
           fullYear = 2025, monthIndex = 6\<rparr>"

text \<open>A store with an active Java rule and one archive of version 2024-01.\<close>

definition javaStore :: Store where
  "javaStore =
     \<lparr>ruleFiles = [''java-best-practices.md'' \<mapsto> ''current rules''],
      archiveFiles =
        [(''java-best-practices-2024-01-2024-01-01T00-00-00-000Z.md'',
          \<lparr>content = ''older rules'', mtime = 1704067200000\<rparr>),
         (''notes.txt'', \<lparr>content = ''not an archive'', mtime = 0\<rparr>)],
      historyFiles = Map.empty, deploymentFiles = Map.empty,
      unwritable = {}, logged = []\<rparr>"

text \<open>A parser of dates that maps every date to the epoch, and a store after one deploy.\<close>

definition epochOnly :: "string \<Rightarrow> int" where
  "epochOnly d = 0"

definition deployedStore :: Store where
  "deployedStore =
     snd (deployNewRule ''java-best-practices'' ''old rules'' ''2025-01'' january emptyStore)"

section \<open>Job queues\<close>

subsection \<open>Job data\<close>

datatype priorityLevel = Low | Medium | High

datatype updateKind = Major | Minor | Emergency

datatype trigger = Schedule | Manual | EmergencyTrigger

text \<open>
  \<open>interface RuleUpdateJob\<close> of \<open>RuleUpdateQueue\<close>; \<open>interface JobData\<close> of
  \<open>QueueService\<close> has the same three fields, an optional context and the trigger.
\<close>

record RuleUpdateJob =
  technology :: string
  priority :: priorityLevel
  updateType :: updateKind

record JobData = RuleUpdateJob +
  jobContext :: "string option"
  triggeredBy :: trigger

text \<open>\<open>interface TrendData\<close>: the analysed trends and their update priority.\<close>

record TrendData = Trends +
  updatePriority :: real
  lastAnalyzed :: string

text \<open>\<open>interface JobResult\<close>, without the processing time.\<close>

record JobResult =
  success :: bool
  message :: string
  ruleVersion :: "string option"
  rulesGenerated :: "nat option"
  error :: "string option"

subsection \<open>QueueService: the processors\<close>

text \<open>
  The collaborators of a processor are parameters: what
  \<open>trendAnalyzer.analyzeTechnology\<close> returns or throws, what
  \<open>ruleGenerator.generateRules\<close> returns or throws, and whether
  \<open>ruleGenerator.cleanup\<close> throws.
\<close>

definition generationFailed :: "string \<Rightarrow> error \<Rightarrow> Store \<Rightarrow> JobResult \<times> Store" where
  "generationFailed tech e s =
     (\<lparr>success = False,
       message = ''Rule generation failed for '' @ tech @ '': '' @ errorMessage e,
       ruleVersion = None, rulesGenerated = None, error = Some (errorMessage e)\<rparr>,
      logLine (ErrorLog (''Rule generation failed for '' @ tech)) s)"

text \<open>
  \<open>processRuleGeneration\<close>: analyse, generate, archive, deploy. Every exception is
  caught and turned into a result with \<open>success: false\<close>; the method never throws.
\<close>

definition processRuleGeneration ::
  "JobData \<Rightarrow> error + TrendData \<Rightarrow> error + string \<Rightarrow> error option \<Rightarrow> DateReading
     \<Rightarrow> Store \<Rightarrow> JobResult \<times> Store" where
  "processRuleGeneration job analysis generated cleanup now s0 =
     (let tech = technology job;
          s = logLine (Info (''rule-generation started: '' @ tech)) s0
      in case analysis of
           Inl e \<Rightarrow> generationFailed tech e s
         | Inr trends \<Rightarrow>
             (case generated of
                Inl e \<Rightarrow> generationFailed tech e s
              | Inr rules \<Rightarrow>
                  (let ver = versionOf now;
                       rt = tech @ ''-best-practices''
                   in case archiveCurrentRule rt ver now s of
                        (Some e, s1) \<Rightarrow> generationFailed tech e s1
                      | (None, s1) \<Rightarrow>
                          (case deployNewRule rt rules ver now s1 of
                             (Some e, s2) \<Rightarrow> generationFailed tech e s2
                           | (None, s2) \<Rightarrow>
                               (case cleanup of
                                  Some e \<Rightarrow> generationFailed tech e s2
                                | None \<Rightarrow>
                                    (\<lparr>success = True,
                                      message =
                                        ''Successfully generated and deployed rules for ''
                                          @ tech,
                                      ruleVersion = Some ver, rulesGenerated = Some 1,
                                      error = None\<rparr>,
                                     s2))))))"

text \<open>
  \<open>interface NotificationAlert\<close>, the fields that \<open>processEmergencyUpdate\<close> sets.
\<close>

record NotificationAlert =
  alertType :: string
  alertMessage :: string
  technologies :: "string list"
  severity :: priorityLevel
  successful :: nat
  failed :: nat

text \<open>
  \<open>processEmergencyUpdate\<close>: the same generation, then one alert
  \<open>emergency-update-completed\<close> whatever the result was. The alerts are returned
  beside the result.
\<close>

definition processEmergencyUpdate ::
  "JobData \<Rightarrow> error + TrendData \<Rightarrow> error + string \<Rightarrow> error option \<Rightarrow> DateReading
     \<Rightarrow> Store \<Rightarrow> JobResult \<times> NotificationAlert list \<times> Store" where
  "processEmergencyUpdate job analysis generated cleanup now s0 =
     (let tech = technology job;
          s = logLine (Warn (''Processing emergency update for '' @ tech)) s0;
          outcome = processRuleGeneration job analysis generated cleanup now s;
          alert = \<lparr>alertType = ''emergency-update-completed'',
                    alertMessage = ''Emergency update completed for '' @ tech,
                    technologies = [tech], severity = High,
                    successful = (if success (fst outcome) then 1 else 0),
                    failed = (if success (fst outcome) then 0 else 1)\<rparr>
      in (fst outcome, [alert], snd outcome))"

subsection \<open>RuleUpdateQueue: the processor of the implementation plan\<close>

text \<open>
  The two object literals that the \<open>generate-rules\<close> processor returns:
  \<open>{ message, updated: false }\<close> and \<open>{ message, updated: true, version, rulesSize }\<close>.
\<close>

datatype updateOutcome =
    NotUpdated string
  | UpdatedTo string string nat

definition generateRulesProcessor ::
  "'a RuleUpdateJob_scheme \<Rightarrow> error + TrendData \<Rightarrow> error + string \<Rightarrow> DateReading \<Rightarrow> Store
     \<Rightarrow> (error + updateOutcome) \<times> Store" where
  "generateRulesProcessor job analysis generated now s =
     (let tech = technology job;
          rethrow = (\<lambda>e. Inl (Error (''Rule generation failed for '' @ tech @ '': ''
                                        @ errorMessage e)))
      in case analysis of
           Inl e \<Rightarrow> (rethrow e, s)
         | Inr trends \<Rightarrow>
             if updateType job \<noteq> Emergency \<and> updatePriority trends < 0.3
             then (Inr (NotUpdated (''No significant changes detected for '' @ tech)), s)
             else
               (case generated of
                  Inl e \<Rightarrow> (rethrow e, s)
                | Inr newRules \<Rightarrow>
                    (let ver = versionOf now;
                         rt = tech @ ''-best-practices''
                     in case archiveCurrentRule rt ver now s of
                          (Some e, s1) \<Rightarrow> (rethrow e, s1)
                        | (None, s1) \<Rightarrow>
                            (case deployNewRule rt newRules ver now s1 of
                               (Some e, s2) \<Rightarrow> (rethrow e, s2)
                             | (None, s2) \<Rightarrow>
                                 (Inr (UpdatedTo
                                         (''Successfully updated '' @ tech
                                            @ '' rules to version '' @ ver)
                                         ver (length newRules)),
                                  s2)))))"

subsection \<open>Failure listeners\<close>

text \<open>
  What a listener of the queue's \<open>failed\<close> event sees of a job: its id, the number
  of attempts made so far (\<open>job.attemptsMade\<close>) and the attempts it was given
  (\<open>job.opts.attempts\<close>).
\<close>

record FailedJob =
  jobId :: string
  attemptsMade :: nat
  attempts :: nat

text \<open>
  What a listener can do. The listeners of the code log and, in \<open>RuleUpdateQueue\<close>,
  call \<open>job.retry(delay)\<close>; marking a job dead and sending an alert are the two
  effects that the specification names for a job out of attempts.
\<close>

datatype queueEffect =
    ConsoleError string
  | LogQueueJob string string string
  | Retry nat
  | MarkDead
  | SendAlert string

text \<open>\<open>RuleUpdateQueue.setupEventHandlers\<close>, \<open>this.queue.on('failed', ...)\<close>.\<close>

definition onFailed :: "FailedJob \<Rightarrow> string \<Rightarrow> queueEffect list" where
  "onFailed job errorText =
     ConsoleError (''Rule update job '' @ jobId job @ '' failed: '' @ errorText)
     # (let made = attemptsMade job
        in if made < 3 then [Retry (2 ^ made * 1000)] else [])"

text \<open>
  \<open>QueueService.setupQueueEventHandlers\<close>: the \<open>failed\<close> listeners of the three
  queues call \<open>logQueueJob\<close> and nothing else.
\<close>

definition onQueueFailed :: "string \<Rightarrow> FailedJob \<Rightarrow> string \<Rightarrow> queueEffect list" where
  "onQueueFailed queueName job errorText = [LogQueueJob queueName (jobId job) ''failed'']"

subsection \<open>The retry policy, from the specification's words\<close>

fun isAlert :: "queueEffect \<Rightarrow> bool" where
  "isAlert (SendAlert m) = True"
| "isAlert other = False"

text \<open>
  On a handler failure: below \<open>maxAttempts\<close> the job is re-enqueued after
  \<open>baseDelay * 2 ^ attempt\<close>; otherwise it is marked dead and exactly one failure
  alert is emitted.
\<close>

definition followsRetryPolicy :: "nat \<Rightarrow> FailedJob \<Rightarrow> queueEffect list \<Rightarrow> bool" where
  "followsRetryPolicy baseDelay job effects =
     (if attemptsMade job < attempts job
      then Retry (baseDelay * 2 ^ attemptsMade job) \<in> set effects
      else MarkDead \<in> set effects \<and> length (filter isAlert effects) = 1)"

subsection \<open>Job options\<close>







subsection \<open>Lanes\<close>























subsection \<open>Example jobs\<close>


definition monthlyUpdate :: "string \<Rightarrow> JobData" where
  "monthlyUpdate tech = \<lparr>technology = tech, priority = Medium, updateType = Major,
                         jobContext = Some ''Monthly comprehensive update'',
                         triggeredBy = Schedule\<rparr>"

text \<open>
  The analysis of a technology without any activity: the update priority is 0.08, below
  the threshold 0.3.
\<close>

definition quietTrends :: TrendData where
  "quietTrends =
     \<lparr>githubTrends = \<lparr>totalRepos = 0, averageStars = 0\<rparr>,
      stackOverflowTrends = \<lparr>totalQuestions = 0, averageScore = 0\<rparr>,
      packageTrends = \<lparr>downloads = 0, weeklyGrowth = 0\<rparr>,
      documentationChanges = \<lparr>breakingChanges = []\<rparr>,
      updatePriority = 0.08, lastAnalyzed = ''2025-07-01T00:00:00.000Z''\<rparr>"

text \<open>A job that has used up its three attempts, and one that has failed once.\<close>

definition exhaustedJob :: FailedJob where
  "exhaustedJob = \<lparr>jobId = ''42'', attemptsMade = 3, attempts = 3\<rparr>"

definition retriedJob :: FailedJob where
  "retriedJob = \<lparr>jobId = ''44'', attemptsMade = 1, attempts = 3\<rparr>"






section \<open>SchedulerService\<close>

text \<open>
  \<open>interface ScheduledTask\<close>, without the handle of the cron library. The callback
  that \<open>scheduleTask\<close> hands to \<open>cron.schedule\<close> is asynchronous: it runs up
  to \<open>await taskFunction()\<close> when the library (or \<open>task.now()\<close>) invokes it, and
  the rest when the task function settles. \<open>running\<close> lists the invocations that
  have started and not yet settled; the code keeps no such record, it is the model's
  only addition.
\<close>

record ScheduledTask =
  name :: string
  cronExpression :: string
  enabled :: bool
  lastRun :: "int option"
  nextRun :: "int option"
  runCount :: nat
  errorCount :: nat

record SchedulerService =
  scheduledTasks :: "(string \<times> ScheduledTask) list"
  running :: "string list"
  schedulerLog :: "logEntry list"
  sentAlerts :: "string list"
  hasNotificationService :: bool

definition newSchedulerService :: SchedulerService where
  "newSchedulerService =
     \<lparr>scheduledTasks = [], running = [], schedulerLog = [], sentAlerts = [],
      hasNotificationService = True\<rparr>"

definition schedulerLogLine :: "logEntry \<Rightarrow> SchedulerService \<Rightarrow> SchedulerService" where
  "schedulerLogLine entry sch = sch\<lparr>schedulerLog := schedulerLog sch @ [entry]\<rparr>"

text \<open>\<open>getNextRunTime\<close>: one hour from now, whatever the expression.\<close>

definition getNextRunTime :: "string \<Rightarrow> int \<Rightarrow> int option" where
  "getNextRunTime expression now = Some (now + 60 * 60 * 1000)"

text \<open>\<open>scheduleTask\<close>: the registration of a task.\<close>

definition scheduleTask :: "string \<Rightarrow> string \<Rightarrow> int \<Rightarrow> SchedulerService \<Rightarrow> SchedulerService" where
  "scheduleTask taskName expression now sch =
     schedulerLogLine (Info (''Task scheduled: '' @ taskName))
       (sch\<lparr>scheduledTasks :=
              AList.update taskName
                \<lparr>name = taskName, cronExpression = expression, enabled = True,
                 lastRun = None, nextRun = getNextRunTime expression now,
                 runCount = 0, errorCount = 0\<rparr>
                (scheduledTasks sch)\<rparr>)"

text \<open>
  The callback, from its invocation to \<open>await taskFunction()\<close>: a missing or disabled
  task is skipped with a debug line; otherwise the run is counted, logged and the task
  function is started.
\<close>

definition fire :: "string \<Rightarrow> int \<Rightarrow> SchedulerService \<Rightarrow> SchedulerService" where
  "fire taskName now sch =
     (case map_of (scheduledTasks sch) taskName of
        None \<Rightarrow> schedulerLogLine (Debug (''Skipping disabled task: '' @ taskName)) sch
      | Some scheduledTask \<Rightarrow>
          if \<not> enabled scheduledTask
          then schedulerLogLine (Debug (''Skipping disabled task: '' @ taskName)) sch
          else
            schedulerLogLine (Info (''Executing scheduled task: '' @ taskName))
              (sch\<lparr>scheduledTasks :=
                     AList.update taskName
                       (scheduledTask\<lparr>lastRun := Some now,
                                      runCount := runCount scheduledTask + 1\<rparr>)
                       (scheduledTasks sch),
                   running := running sch @ [taskName]\<rparr>))"

text \<open>
  The rest of the callback, when the task function has settled: with \<open>None\<close> it
  resolved, with \<open>Some e\<close> it threw \<open>e\<close>. A failure is counted and logged, and
  for the two critical tasks an alert is sent.
\<close>

definition settle :: "string \<Rightarrow> error option \<Rightarrow> SchedulerService \<Rightarrow> SchedulerService" where
  "settle taskName outcome sch0 =
     (let sch = sch0\<lparr>running := remove1 taskName (running sch0)\<rparr>
      in case outcome of
           None \<Rightarrow> schedulerLogLine (Info (''Scheduled task completed: '' @ taskName)) sch
         | Some e \<Rightarrow>
             (let counted =
                    (case map_of (scheduledTasks sch) taskName of
                       None \<Rightarrow> sch
                     | Some scheduledTask \<Rightarrow>
                         sch\<lparr>scheduledTasks :=
                               AList.update taskName
                                 (scheduledTask\<lparr>errorCount := errorCount scheduledTask + 1\<rparr>)
                                 (scheduledTasks sch)\<rparr>);
                  logged' = schedulerLogLine (ErrorLog (''Scheduled task failed: '' @ taskName))
                              counted
              in if hasNotificationService logged'
                    \<and> taskName \<in> set [''monthly-comprehensive-update'', ''security-advisory-check'']
                 then logged'\<lparr>sentAlerts := sentAlerts logged'
                                  @ [''Scheduled task failed: '' @ taskName]\<rparr>
                 else logged'))"

definition enableTask :: "string \<Rightarrow> SchedulerService \<Rightarrow> bool \<times> SchedulerService" where
  "enableTask taskName sch =
     (case map_of (scheduledTasks sch) taskName of
        None \<Rightarrow> (False, schedulerLogLine (Warn (''Task not found: '' @ taskName)) sch)
      | Some task \<Rightarrow>
          (True,
           schedulerLogLine (Info (''Task enabled: '' @ taskName))
             (sch\<lparr>scheduledTasks :=
                    AList.update taskName (task\<lparr>enabled := True\<rparr>) (scheduledTasks sch)\<rparr>)))"

definition disableTask :: "string \<Rightarrow> SchedulerService \<Rightarrow> bool \<times> SchedulerService" where
  "disableTask taskName sch =
     (case map_of (scheduledTasks sch) taskName of
        None \<Rightarrow> (False, schedulerLogLine (Warn (''Task not found: '' @ taskName)) sch)
      | Some task \<Rightarrow>
          (True,
           schedulerLogLine (Info (''Task disabled: '' @ taskName))
             (sch\<lparr>scheduledTasks :=
                    AList.update taskName (task\<lparr>enabled := False\<rparr>) (scheduledTasks sch)\<rparr>)))"

text \<open>\<open>triggerTask\<close>: \<open>task.task.now()\<close> invokes the callback at once.\<close>

definition triggerTask :: "string \<Rightarrow> int \<Rightarrow> SchedulerService \<Rightarrow> bool \<times> SchedulerService" where
  "triggerTask taskName now sch =
     (case map_of (scheduledTasks sch) taskName of
        None \<Rightarrow> (False, schedulerLogLine (Warn (''Task not found: '' @ taskName)) sch)
      | Some task \<Rightarrow>
          (True,
           fire taskName now
             (schedulerLogLine (Info (''Manually triggering task: '' @ taskName)) sch)))"

text \<open>How many invocations of a task are in progress.\<close>

definition invocationsInProgress :: "string \<Rightarrow> SchedulerService \<Rightarrow> nat" where
  "invocationsInProgress taskName sch = count_list (running sch) taskName"

text \<open>The scheduler after \<open>setupScheduledTasks\<close> has registered the daily analysis.\<close>

definition dailyScheduler :: SchedulerService where
  "dailyScheduler = scheduleTask ''daily-trend-analysis'' ''0 2 * * *'' 0 newSchedulerService"

chapter \<open>Properties\<close>

section \<open>NotificationService\<close>






















section \<open>TrendAnalyzer\<close>





section \<open>RuleVersionManager\<close>

lemma logLine_files [simp]:
  "ruleFiles (logLine e s) = ruleFiles s"
  "archiveFiles (logLine e s) = archiveFiles s"
  "historyFiles (logLine e s) = historyFiles s"
  "deploymentFiles (logLine e s) = deploymentFiles s"
  "unwritable (logLine e s) = unwritable s"
  "logged (logLine e s) = logged s @ [e]"
  by (simp_all add: logLine_def)

lemma cleanupLoop_files:
  "ruleFiles (snd (cleanupLoop cutoff files acc)) = ruleFiles (snd acc)
   \<and> archiveFiles (snd (cleanupLoop cutoff files acc)) = archiveFiles (snd acc)
   \<and> historyFiles (snd (cleanupLoop cutoff files acc)) = historyFiles (snd acc)
   \<and> deploymentFiles (snd (cleanupLoop cutoff files acc)) = deploymentFiles (snd acc)"
  by (induction cutoff files acc rule: cleanupLoop.induct) simp_all

lemma cleanupLoop_count:
  "fst (cleanupLoop cutoff files acc) = fst acc + length (filter (oldArchive cutoff) files)"
  by (induction cutoff files acc rule: cleanupLoop.induct) (simp_all add: oldArchive_def)

lemma cleanupOldArchives_sameFiles:
  "sameFiles s (snd (cleanupOldArchives retentionDays now s))"
  using cleanupLoop_files [of "cutoffDate retentionDays now" "archiveFiles s"
      "(0, logLine (Info ''Cleaning up archives'') s)"]
  by (simp add: cleanupOldArchives_def sameFiles_def Let_def)

text \<open>
  Claim C9. For every retention period and every store, \<open>cleanupOldArchives\<close>
  returns normally and deletes nothing: the rule files, the archive files, the
  histories and the deployment records are the ones it found, after one call and after
  a second call with any other retention period. It only logs: its last log entry
  reports the number of archive files and the number of \<open>.md\<close> archives older
  than the cutoff.
\<close>

theorem cleanupOldArchives_deletes_nothing:
  "fst (cleanupOldArchives retentionDays now s) = None
   \<and> sameFiles s (snd (cleanupOldArchives retentionDays now s))
   \<and> sameFiles s (snd (cleanupOldArchives retentionDays' now'
                          (snd (cleanupOldArchives retentionDays now s))))
   \<and> last (logged (snd (cleanupOldArchives retentionDays now s)))
       = CleanupCompleted (length (archiveFiles s))
           (length (filter (oldArchive (cutoffDate retentionDays now)) (archiveFiles s)))
           retentionDays"
proof -
  have "sameFiles (snd (cleanupOldArchives retentionDays now s))
          (snd (cleanupOldArchives retentionDays' now'
                  (snd (cleanupOldArchives retentionDays now s))))"
    by (rule cleanupOldArchives_sameFiles)
  then have "sameFiles s (snd (cleanupOldArchives retentionDays' now'
                          (snd (cleanupOldArchives retentionDays now s))))"
    using cleanupOldArchives_sameFiles [of s retentionDays now] by (simp add: sameFiles_def)
  moreover have "last (logged (snd (cleanupOldArchives retentionDays now s)))
       = CleanupCompleted (length (archiveFiles s))
           (length (filter (oldArchive (cutoffDate retentionDays now)) (archiveFiles s)))
           retentionDays"
    by (simp add: cleanupOldArchives_def Let_def cleanupLoop_count)
  moreover have "fst (cleanupOldArchives retentionDays now s) = None"
    by (simp add: cleanupOldArchives_def Let_def)
  ultimately show ?thesis
    using cleanupOldArchives_sameFiles [of s retentionDays now] by blast
qed

text \<open>
  An instance: of the two files of the example archive directory, one is an \<open>.md\<close>
  archive older than 90 days; it is counted and still there.
\<close>

theorem cleanupOldArchives_deletes_nothing_witness:
  "archiveFiles (snd (cleanupOldArchives 90 july javaStore)) = archiveFiles javaStore
   \<and> ruleFiles (snd (cleanupOldArchives 90 july javaStore)) = ruleFiles javaStore
   \<and> last (logged (snd (cleanupOldArchives 90 july javaStore))) = CleanupCompleted 2 1 90"
  using cleanupOldArchives_deletes_nothing [of 90 july javaStore 90 july]
  by (simp add: sameFiles_def javaStore_def july_def oldArchive_def cutoffDate_def endsWith_def)


text \<open>
  The lookup of \<open>rollbackToVersion\<close> finds every archive that
  \<open>archiveCurrentRule\<close> wrote for the rule type and the version, whatever the
  timestamp: where the lookup finds nothing, no archive of that version exists.
\<close>

lemma archive_of_version_matches:
  "archiveMatches rt ver (rt @ ''-'' @ ver @ ''-'' @ timestamp @ ''.md'')"
  by (simp add: archiveMatches_def startsWith_def endsWith_def)



subsection \<open>Archive and deploy\<close>

lemma getRuleHistory_length: "length (getRuleHistory rt getTime s) = length (historyOf rt s)"
  by (simp add: getRuleHistory_def historyOf_def split: option.splits)

lemma updateRuleMetadata_fields:
  "ruleFiles (updateRuleMetadata rt ver ts file reason s) = ruleFiles s"
  "archiveFiles (updateRuleMetadata rt ver ts file reason s) = archiveFiles s"
  "deploymentFiles (updateRuleMetadata rt ver ts file reason s) = deploymentFiles s"
  "unwritable (updateRuleMetadata rt ver ts file reason s) = unwritable s"
  by (simp_all add: updateRuleMetadata_def Let_def)

lemma updateRuleMetadata_history:
  "HistoryPath rt \<notin> unwritable s \<Longrightarrow>
   length (historyOf rt (updateRuleMetadata rt ver ts file reason s))
     = min 50 (length (historyOf rt s) + 1)"
  by (simp add: updateRuleMetadata_def historyOf_def Let_def split: option.splits)

lemma updateDeploymentMetadata_fields:
  "ruleFiles (updateDeploymentMetadata rt ver ts len digest s) = ruleFiles s"
  "archiveFiles (updateDeploymentMetadata rt ver ts len digest s) = archiveFiles s"
  "historyFiles (updateDeploymentMetadata rt ver ts len digest s) = historyFiles s"
  "unwritable (updateDeploymentMetadata rt ver ts len digest s) = unwritable s"
  by (simp_all add: updateDeploymentMetadata_def Let_def)

lemma archiveCurrentRule_writable:
  assumes "unwritable s = {}"
  shows "fst (archiveCurrentRule rt ver now s) = None"
    and "unwritable (snd (archiveCurrentRule rt ver now s)) = {}"
    and "ruleFiles (snd (archiveCurrentRule rt ver now s)) = ruleFiles s"
    and "length (historyOf rt (snd (archiveCurrentRule rt ver now s)))
           = (if ruleFiles s (getRuleFilePath rt) = None then length (historyOf rt s)
              else min 50 (length (historyOf rt s) + 1))"
proof -
  let ?s = "logLine (Info (''Archiving current rule: '' @ rt @ '' to version '' @ ver)) s"
  have hs: "historyOf rt ?s = historyOf rt s"
    by (simp add: historyOf_def)
  show "fst (archiveCurrentRule rt ver now s) = None"
    using assms
    by (simp add: archiveCurrentRule_def writeArchiveFile_def Let_def split: option.splits)
  show "unwritable (snd (archiveCurrentRule rt ver now s)) = {}"
    using assms
    by (simp add: archiveCurrentRule_def writeArchiveFile_def Let_def updateRuleMetadata_fields
        split: option.splits)
  show "ruleFiles (snd (archiveCurrentRule rt ver now s)) = ruleFiles s"
    using assms
    by (simp add: archiveCurrentRule_def writeArchiveFile_def Let_def updateRuleMetadata_fields
        split: option.splits)
  show "length (historyOf rt (snd (archiveCurrentRule rt ver now s)))
           = (if ruleFiles s (getRuleFilePath rt) = None then length (historyOf rt s)
              else min 50 (length (historyOf rt s) + 1))"
  proof (cases "ruleFiles s (getRuleFilePath rt)")
    case None
    then show ?thesis
      by (simp add: archiveCurrentRule_def Let_def historyOf_def)
  next
    case (Some current)
    let ?file = "rt @ ''-'' @ ver @ ''-'' @ archiveTimestamp now @ ''.md''"
    let ?s1 = "?s\<lparr>archiveFiles :=
                  AList.update ?file \<lparr>content = current, mtime = ms now\<rparr> (archiveFiles ?s)\<rparr>"
    have w: "HistoryPath rt \<notin> unwritable ?s1"
      using assms by simp
    have "historyOf rt ?s1 = historyOf rt s"
      by (simp add: historyOf_def)
    then have "length (historyOf rt (updateRuleMetadata rt ver (iso now) ?file
                  ''scheduled_update'' ?s1)) = min 50 (length (historyOf rt s) + 1)"
      using updateRuleMetadata_history[OF w] by simp
    moreover have "snd (archiveCurrentRule rt ver now s)
        = logLine (Info (''Rule archived successfully: '' @ rt))
            (updateRuleMetadata rt ver (iso now) ?file ''scheduled_update'' ?s1)"
      using assms Some
      by (simp add: archiveCurrentRule_def writeArchiveFile_def Let_def)
    ultimately show ?thesis
      using Some by (simp add: historyOf_def)
  qed
qed

lemma deployNewRule_writable:
  assumes "unwritable s = {}"
  shows "fst (deployNewRule rt body ver now s) = None"
    and "unwritable (snd (deployNewRule rt body ver now s)) = {}"
    and "ruleFiles (snd (deployNewRule rt body ver now s)) (getRuleFilePath rt) \<noteq> None"
    and "historyFiles (snd (deployNewRule rt body ver now s)) = historyFiles s"
  using assms
  by (simp_all add: deployNewRule_def writeRuleFile_def Let_def updateDeploymentMetadata_fields)

lemma archiveThenDeploy_writable:
  assumes "unwritable s = {}"
  shows "fst (archiveThenDeploy rt body ver now s) = None"
    and "unwritable (snd (archiveThenDeploy rt body ver now s)) = {}"
    and "ruleFiles (snd (archiveThenDeploy rt body ver now s)) (getRuleFilePath rt) \<noteq> None"
    and "length (historyOf rt (snd (archiveThenDeploy rt body ver now s)))
           = (if ruleFiles s (getRuleFilePath rt) = None then length (historyOf rt s)
              else min 50 (length (historyOf rt s) + 1))"
proof -
  obtain s1 where a: "archiveCurrentRule rt ver now s = (None, s1)"
    using archiveCurrentRule_writable(1)[OF assms, of rt ver now]
    by (cases "archiveCurrentRule rt ver now s") auto
  have s1: "unwritable s1 = {}"
    using archiveCurrentRule_writable(2)[OF assms, of rt ver now] a by simp
  have h1: "length (historyOf rt s1)
           = (if ruleFiles s (getRuleFilePath rt) = None then length (historyOf rt s)
              else min 50 (length (historyOf rt s) + 1))"
    using archiveCurrentRule_writable(4)[OF assms, of rt ver now] a by simp
  have eq: "archiveThenDeploy rt body ver now s = deployNewRule rt body ver now s1"
    by (simp add: archiveThenDeploy_def a)
  show "fst (archiveThenDeploy rt body ver now s) = None"
    by (simp add: eq deployNewRule_writable(1)[OF s1])
  show "unwritable (snd (archiveThenDeploy rt body ver now s)) = {}"
    by (simp add: eq deployNewRule_writable(2)[OF s1])
  show "ruleFiles (snd (archiveThenDeploy rt body ver now s)) (getRuleFilePath rt) \<noteq> None"
    by (simp add: eq deployNewRule_writable(3)[OF s1])
  show "length (historyOf rt (snd (archiveThenDeploy rt body ver now s)))
           = (if ruleFiles s (getRuleFilePath rt) = None then length (historyOf rt s)
              else min 50 (length (historyOf rt s) + 1))"
    using h1 by (simp add: eq historyOf_def deployNewRule_writable(4)[OF s1])
qed

lemma deployAll_history:
  "unwritable s = {} \<Longrightarrow> length (historyOf rt s) \<le> 50 \<Longrightarrow>
   fst (deployAll rt reqs s) = None
   \<and> length (historyOf rt (snd (deployAll rt reqs s)))
       = (if reqs = [] then length (historyOf rt s)
          else min 50 (length (historyOf rt s) + length reqs
                        - (if ruleFiles s (getRuleFilePath rt) = None then 1 else 0)))"
proof (induction reqs arbitrary: s)
  case Nil
  then show ?case by simp
next
  case (Cons req rest)
  obtain body ver now where req: "req = (body, ver, now)"
    by (cases req) auto
  obtain s1 where step: "archiveThenDeploy rt body ver now s = (None, s1)"
    using archiveThenDeploy_writable(1)[OF Cons.prems(1), of rt body ver now]
    by (cases "archiveThenDeploy rt body ver now s") auto
  have w1: "unwritable s1 = {}"
    using archiveThenDeploy_writable(2)[OF Cons.prems(1), of rt body ver now] step by simp
  have a1: "ruleFiles s1 (getRuleFilePath rt) \<noteq> None"
    using archiveThenDeploy_writable(3)[OF Cons.prems(1), of rt body ver now] step by simp
  have h1: "length (historyOf rt s1)
           = (if ruleFiles s (getRuleFilePath rt) = None then length (historyOf rt s)
              else min 50 (length (historyOf rt s) + 1))"
    using archiveThenDeploy_writable(4)[OF Cons.prems(1), of rt body ver now] step by simp
  have le1: "length (historyOf rt s1) \<le> 50"
    using h1 Cons.prems(2) by (simp split: if_splits)
  have all: "deployAll rt (req # rest) s = deployAll rt rest s1"
    by (simp add: req step)
  show ?case
    using Cons.IH[OF w1 le1] a1 h1 Cons.prems(2)
    by (auto simp: all split: if_splits)
qed

text \<open>
  Claim C3, as amended. On a store where every write succeeds and whose history of the
  rule type has at most 50 entries, any sequence of archive-then-deploy operations
  succeeds, and each deploy that finds an active rule adds exactly one entry to the
  history while a deploy that finds none adds nothing: after \<open>n > 0\<close> deploys the
  history has the initial number of entries plus \<open>n\<close>, less one when there was no
  active rule at the start, and never more than the 50 entries that
  \<open>updateRuleMetadata\<close> keeps.
\<close>

theorem deployAll_history_entries:
  "unwritable s = {} \<Longrightarrow> length (getRuleHistory rt getTime s) \<le> 50 \<Longrightarrow>
   fst (deployAll rt reqs s) = None
   \<and> length (getRuleHistory rt getTime (snd (deployAll rt reqs s)))
       = (if reqs = [] then length (getRuleHistory rt getTime s)
          else min 50 (length (getRuleHistory rt getTime s) + length reqs
                        - (if ruleFiles s (getRuleFilePath rt) = None then 1 else 0)))"
  using deployAll_history [of s rt reqs] by (simp add: getRuleHistory_length)

text \<open>An instance: three deploys on the empty store leave two history entries.\<close>

theorem deployAll_history_entries_witness:
  "unwritable emptyStore = {}
   \<and> length (getRuleHistory ''java-best-practices'' epochOnly emptyStore) \<le> 50
   \<and> fst (deployAll ''java-best-practices''
            [(''first'', ''2025-01'', january), (''second'', ''2025-07'', july),
             (''third'', ''2025-07'', july)] emptyStore) = None
   \<and> length (getRuleHistory ''java-best-practices'' epochOnly
         (snd (deployAll ''java-best-practices''
            [(''first'', ''2025-01'', january), (''second'', ''2025-07'', july),
             (''third'', ''2025-07'', july)] emptyStore))) = 2"
proof -
  have w: "unwritable emptyStore = {}"
    by (simp add: emptyStore_def)
  have h: "length (getRuleHistory ''java-best-practices'' epochOnly emptyStore) \<le> 50"
    by (simp add: getRuleHistory_def emptyStore_def)
  have "getRuleHistory ''java-best-practices'' epochOnly emptyStore = []"
    by (simp add: getRuleHistory_def emptyStore_def)
  moreover have "ruleFiles emptyStore (getRuleFilePath ''java-best-practices'') = None"
    by (simp add: emptyStore_def)
  ultimately show ?thesis
    using w h deployAll_history_entries [OF w h,
        of "[(''first'', ''2025-01'', january), (''second'', ''2025-07'', july),
             (''third'', ''2025-07'', july)]"]
    by simp
qed

text \<open>
  Claim C3 as stated fails: one completed deploy on the empty store, and the history
  has no entry.
\<close>

theorem first_deploy_no_history_entry:
  "fst (deployAll ''java-best-practices'' [(''first'', ''2025-01'', january)] emptyStore) = None
   \<and> length (getRuleHistory ''java-best-practices'' epochOnly
         (snd (deployAll ''java-best-practices'' [(''first'', ''2025-01'', january)]
                 emptyStore))) = 0"
proof -
  have w: "unwritable emptyStore = {}"
    by (simp add: emptyStore_def)
  have h: "length (historyOf ''java-best-practices'' emptyStore) \<le> 50"
    by (simp add: historyOf_def emptyStore_def)
  have "historyOf ''java-best-practices'' emptyStore = []"
    by (simp add: historyOf_def emptyStore_def)
  moreover have "ruleFiles emptyStore (getRuleFilePath ''java-best-practices'') = None"
    by (simp add: emptyStore_def)
  ultimately show ?thesis
    using deployAll_history [OF w h, of "[(''first'', ''2025-01'', january)]"]
    by (simp add: getRuleHistory_length)
qed

subsection \<open>Deploy\<close>

lemma deployNewRule_last_trace:
  "snd (deployNewRule rt body ver now s) = last (deployNewRuleTrace rt body ver now s)"
  by (simp add: deployNewRule_def deployNewRuleTrace_def Let_def split: prod.splits option.splits)

lemma deployNewRuleTrace_writable:
  assumes "RulePath (getRuleFilePath rt) \<notin> unwritable s"
  shows "deployNewRuleTrace rt body ver now s =
     [s,
      (logLine (Info (''Deploying new rule: '' @ rt @ '' version '' @ ver)) s)
        \<lparr>ruleFiles := (ruleFiles s)(getRuleFilePath rt \<mapsto> addVersionHeader body ver rt now)\<rparr>,
      snd (deployNewRule rt body ver now s)]"
  using assms
  by (simp add: deployNewRule_def deployNewRuleTrace_def writeRuleFile_def Let_def)

lemma deployNewRule_consistent:
  assumes "RulePath (getRuleFilePath rt) \<notin> unwritable s" and "DeploymentPath rt \<notin> unwritable s"
  shows "fst (deployNewRule rt body ver now s) = None"
    and "ruleFiles (snd (deployNewRule rt body ver now s))
           = (ruleFiles s)(getRuleFilePath rt \<mapsto> addVersionHeader body ver rt now)"
    and "archiveFiles (snd (deployNewRule rt body ver now s)) = archiveFiles s"
    and "artifactConsistent rt (snd (deployNewRule rt body ver now s))"
  using assms
  by (simp_all add: deployNewRule_def writeRuleFile_def updateDeploymentMetadata_def
      artifactConsistent_def Let_def)

text \<open>
  Claim C1, as amended. \<open>deployNewRule\<close> writes the content, with its version
  header, straight to the active rule file: the store after the first step already
  holds the new text under the rule's own path, with the deployment record still the
  previous one; no other rule file and no archive is written. When the rule file and
  the deployment record are writable, the deploy succeeds and ends with the active file
  holding header and content and with the recorded length and checksum matching it.
\<close>

theorem deployNewRule_in_place:
  assumes "RulePath (getRuleFilePath rt) \<notin> unwritable s"
      and "DeploymentPath rt \<notin> unwritable s"
  shows "fst (deployNewRule rt body ver now s) = None
     \<and> length (deployNewRuleTrace rt body ver now s) = 3
     \<and> deployNewRuleTrace rt body ver now s ! 0 = s
     \<and> ruleFiles (deployNewRuleTrace rt body ver now s ! 1)
         = (ruleFiles s)(getRuleFilePath rt \<mapsto> addVersionHeader body ver rt now)
     \<and> deploymentFiles (deployNewRuleTrace rt body ver now s ! 1) = deploymentFiles s
     \<and> deployNewRuleTrace rt body ver now s ! 2 = snd (deployNewRule rt body ver now s)
     \<and> ruleFiles (snd (deployNewRule rt body ver now s))
         = (ruleFiles s)(getRuleFilePath rt \<mapsto> addVersionHeader body ver rt now)
     \<and> archiveFiles (snd (deployNewRule rt body ver now s)) = archiveFiles s
     \<and> artifactConsistent rt (snd (deployNewRule rt body ver now s))"
  using deployNewRule_consistent [OF assms, of body ver now]
  by (simp add: deployNewRuleTrace_writable [OF assms(1)])

theorem deployNewRule_in_place_witness:
  "RulePath (getRuleFilePath ''java-best-practices'') \<notin> unwritable emptyStore
   \<and> DeploymentPath ''java-best-practices'' \<notin> unwritable emptyStore
   \<and> fst (deployNewRule ''java-best-practices'' ''old rules'' ''2025-01'' january emptyStore) = None
   \<and> ruleFiles (deployNewRuleTrace ''java-best-practices'' ''old rules'' ''2025-01'' january
                   emptyStore ! 1) ''java-best-practices.md''
       = Some (addVersionHeader ''old rules'' ''2025-01'' ''java-best-practices'' january)
   \<and> deploymentFiles (deployNewRuleTrace ''java-best-practices'' ''old rules'' ''2025-01''
                         january emptyStore ! 1) = Map.empty
   \<and> artifactConsistent ''java-best-practices'' deployedStore"
proof -
  have r: "RulePath (getRuleFilePath ''java-best-practices'') \<notin> unwritable emptyStore"
    by (simp add: emptyStore_def)
  have d: "DeploymentPath ''java-best-practices'' \<notin> unwritable emptyStore"
    by (simp add: emptyStore_def)
  have p: "getRuleFilePath ''java-best-practices'' = ''java-best-practices.md''"
    by (simp add: getRuleFilePath_def endsWith_def)
  have e: "deploymentFiles emptyStore = Map.empty"
    by (simp add: emptyStore_def)
  show ?thesis
    using r d deployNewRule_in_place [OF r d, of "''old rules''" "''2025-01''" january]
    by (simp add: deployedStore_def p e)
qed

lemma checksum_old_rules:
  "calculateChecksum (addVersionHeader ''old rules'' ''2025-01'' ''java-best-practices'' january)
     = ''-7ca37b32''"
  by (simp add: calculateChecksum_def addVersionHeader_def january_def toStringRadix_def
      toDigits.simps digitChar_def)

lemma checksum_new_rules:
  "calculateChecksum (addVersionHeader ''new rules'' ''2025-07'' ''java-best-practices'' july)
     = ''311830fb''"
  by (simp add: calculateChecksum_def addVersionHeader_def july_def toStringRadix_def
      toDigits.simps digitChar_def)

text \<open>
  Claim C1 as stated fails. The example store holds a deployed rule whose record is
  consistent; during the next deploy, after the file is written and before the record
  is, the active file holds the new text while the recorded checksum is the old one.
\<close>

theorem deploy_exposes_stale_checksum:
  "artifactConsistent ''java-best-practices'' deployedStore
   \<and> \<not> list_all (artifactConsistent ''java-best-practices'')
         (deployNewRuleTrace ''java-best-practices'' ''new rules'' ''2025-07'' july deployedStore)"
proof -
  have r: "RulePath (getRuleFilePath ''java-best-practices'') \<notin> unwritable emptyStore"
    by (simp add: emptyStore_def)
  have d: "DeploymentPath ''java-best-practices'' \<notin> unwritable emptyStore"
    by (simp add: emptyStore_def)
  have first: "artifactConsistent ''java-best-practices'' deployedStore"
    using deployNewRule_consistent(4) [OF r d] by (simp add: deployedStore_def)
  have w: "unwritable deployedStore = {}"
    by (simp add: deployedStore_def deployNewRule_def writeRuleFile_def
        updateDeploymentMetadata_def Let_def emptyStore_def)
  have rec: "map_option checksum (deploymentFiles deployedStore ''java-best-practices'')
      = Some (calculateChecksum
                (addVersionHeader ''old rules'' ''2025-01'' ''java-best-practices'' january))"
    by (simp add: deployedStore_def deployNewRule_def writeRuleFile_def
        updateDeploymentMetadata_def Let_def emptyStore_def)
  have "\<not> artifactConsistent ''java-best-practices''
      ((logLine (Info (''Deploying new rule: '' @ ''java-best-practices'' @ '' version '' @ ''2025-07''))
          deployedStore)
        \<lparr>ruleFiles := (ruleFiles deployedStore)(getRuleFilePath ''java-best-practices'' \<mapsto>
            addVersionHeader ''new rules'' ''2025-07'' ''java-best-practices'' july)\<rparr>)"
    using rec by (auto simp: artifactConsistent_def checksum_old_rules checksum_new_rules
        split: option.splits)
  then have "\<not> list_all (artifactConsistent ''java-best-practices'')
         (deployNewRuleTrace ''java-best-practices'' ''new rules'' ''2025-07'' july deployedStore)"
    using w by (simp add: deployNewRuleTrace_writable)
  then show ?thesis
    using first by simp
qed

section \<open>Job queues\<close>

lemma versionOf_july: "versionOf july = ''2025-07''"
  by (simp add: versionOf_def july_def toStringRadix_def toDigits.simps digitChar_def padStart2_def)

lemma archiveTimestamp_july: "archiveTimestamp july = ''2025-07-01T00-00-00-000Z''"
  by (simp add: archiveTimestamp_def july_def)

lemma generateRulesProcessor_skips:
  "updateType job \<noteq> Emergency \<Longrightarrow> updatePriority trends < 0.3 \<Longrightarrow>
   generateRulesProcessor job (Inr trends) generated now s
     = (Inr (NotUpdated (''No significant changes detected for '' @ technology job)), s)"
  by (simp add: generateRulesProcessor_def Let_def)

lemma generateRulesProcessor_emergency:
  "updateType job = Emergency \<Longrightarrow> unwritable s = {} \<Longrightarrow>
   fst (generateRulesProcessor job (Inr trends) (Inr newRules) now s)
     = Inr (UpdatedTo (''Successfully updated '' @ technology job @ '' rules to version ''
                        @ versionOf now) (versionOf now) (length newRules))"
proof -
  assume e: "updateType job = Emergency" and w: "unwritable s = {}"
  let ?rt = "technology job @ ''-best-practices''"
  obtain s1 where a: "archiveCurrentRule ?rt (versionOf now) now s = (None, s1)"
    using archiveCurrentRule_writable(1)[OF w, of ?rt "versionOf now" now]
    by (cases "archiveCurrentRule ?rt (versionOf now) now s") auto
  have w1: "unwritable s1 = {}"
    using archiveCurrentRule_writable(2)[OF w, of ?rt "versionOf now" now] a by simp
  obtain s2 where d: "deployNewRule ?rt newRules (versionOf now) now s1 = (None, s2)"
    using deployNewRule_writable(1)[OF w1, of ?rt newRules "versionOf now" now]
    by (cases "deployNewRule ?rt newRules (versionOf now) now s1") auto
  show ?thesis
    using e a d by (simp add: generateRulesProcessor_def Let_def)
qed

lemma processRuleGeneration_always_deploys:
  assumes "unwritable s = {}"
  shows "success (fst (processRuleGeneration job (Inr trends) (Inr rules) None now s))"
    and "ruleFiles (snd (processRuleGeneration job (Inr trends) (Inr rules) None now s))
           (getRuleFilePath (technology job @ ''-best-practices''))
         = Some (addVersionHeader rules (versionOf now) (technology job @ ''-best-practices'') now)"
proof -
  let ?rt = "technology job @ ''-best-practices''"
  let ?s = "logLine (Info (''rule-generation started: '' @ technology job)) s"
  have w: "unwritable ?s = {}"
    using assms by simp
  obtain s1 where a: "archiveCurrentRule ?rt (versionOf now) now ?s = (None, s1)"
    using archiveCurrentRule_writable(1)[OF w, of ?rt "versionOf now" now]
    by (cases "archiveCurrentRule ?rt (versionOf now) now ?s") auto
  have w1: "unwritable s1 = {}"
    using archiveCurrentRule_writable(2)[OF w, of ?rt "versionOf now" now] a by simp
  obtain s2 where d: "deployNewRule ?rt rules (versionOf now) now s1 = (None, s2)"
    using deployNewRule_writable(1)[OF w1, of ?rt rules "versionOf now" now]
    by (cases "deployNewRule ?rt rules (versionOf now) now s1") auto
  have r: "RulePath (getRuleFilePath ?rt) \<notin> unwritable s1"
    and m: "DeploymentPath ?rt \<notin> unwritable s1"
    using w1 by simp_all
  have f: "ruleFiles s2 (getRuleFilePath ?rt)
             = Some (addVersionHeader rules (versionOf now) ?rt now)"
    using deployNewRule_consistent(2)[OF r m, of rules "versionOf now" now] d by simp
  show "success (fst (processRuleGeneration job (Inr trends) (Inr rules) None now s))"
    using a d by (simp add: processRuleGeneration_def Let_def)
  show "ruleFiles (snd (processRuleGeneration job (Inr trends) (Inr rules) None now s))
           (getRuleFilePath (technology job @ ''-best-practices''))
         = Some (addVersionHeader rules (versionOf now) (technology job @ ''-best-practices'') now)"
    using a d f by (simp add: processRuleGeneration_def Let_def)
qed

lemma deployedStore_files:
  "ruleFiles deployedStore
     = [''java-best-practices.md'' \<mapsto>
          addVersionHeader ''old rules'' ''2025-01'' ''java-best-practices'' january]"
  "archiveFiles deployedStore = []"
  "unwritable deployedStore = {}"
  "historyFiles deployedStore = Map.empty"
  by (simp_all add: deployedStore_def deployNewRule_def writeRuleFile_def
      updateDeploymentMetadata_def Let_def emptyStore_def getRuleFilePath_def endsWith_def)

text \<open>
  Claim C7 against \<open>QueueService.processRuleGeneration\<close>. A scheduled job for a
  technology whose update priority is 0.08, below the minimum 0.3, is not skipped: the
  active rule is archived and the generated rule is deployed. The \<open>generate-rules\<close>
  processor of \<open>RuleUpdateQueue\<close>, run on the same input, returns without touching
  the store.
\<close>

theorem processRuleGeneration_ignores_priority:
  "triggeredBy (monthlyUpdate ''java'') = Schedule
   \<and> updatePriority quietTrends < 0.3
   \<and> success (fst (processRuleGeneration (monthlyUpdate ''java'') (Inr quietTrends)
                      (Inr ''new rules'') None july deployedStore))
   \<and> ruleFiles (snd (processRuleGeneration (monthlyUpdate ''java'') (Inr quietTrends)
                        (Inr ''new rules'') None july deployedStore)) ''java-best-practices.md''
       = Some (addVersionHeader ''new rules'' ''2025-07'' ''java-best-practices'' july)
   \<and> map fst (archiveFiles (snd (processRuleGeneration (monthlyUpdate ''java'')
                                    (Inr quietTrends) (Inr ''new rules'') None july deployedStore)))
       = [''java-best-practices-2025-07-2025-07-01T00-00-00-000Z.md'']
   \<and> generateRulesProcessor (monthlyUpdate ''java'') (Inr quietTrends) (Inr ''new rules'')
         july deployedStore
       = (Inr (NotUpdated ''No significant changes detected for java''), deployedStore)"
  by (simp add: processRuleGeneration_def generateRulesProcessor_def Let_def monthlyUpdate_def
      quietTrends_def versionOf_july archiveCurrentRule_def deployNewRule_def writeRuleFile_def
      writeArchiveFile_def updateRuleMetadata_def updateDeploymentMetadata_def
      deployedStore_files getRuleFilePath_def endsWith_def archiveTimestamp_july)

subsection \<open>Failure listeners\<close>

text \<open>
  Claim C2, as amended. For a job that was given three attempts, the \<open>failed\<close>
  listener of \<open>RuleUpdateQueue\<close> logs the error and, while fewer than three attempts
  have been made, asks for a retry after \<open>1000 * 2 ^ attemptsMade\<close> milliseconds,
  which is the retry branch of the policy with base delay 1000; once three attempts
  have been made it only logs. No listener, of \<open>RuleUpdateQueue\<close> or of
  \<open>QueueService\<close>, marks a job dead or sends an alert, and
  \<open>QueueService.processRuleGeneration\<close> reports a failed generation in its result
  (\<open>success: false\<close>) instead of failing. The count of attempts, the re-enqueueing
  and the final state of a job belong to the queue library.
\<close>

theorem onFailed_effects:
  "(attempts job = 3 \<and> attemptsMade job < 3 \<longrightarrow>
      onFailed job e = [ConsoleError (''Rule update job '' @ jobId job @ '' failed: '' @ e),
                        Retry (1000 * 2 ^ attemptsMade job)]
      \<and> followsRetryPolicy 1000 job (onFailed job e))
   \<and> (attempts job = 3 \<and> 3 \<le> attemptsMade job \<longrightarrow>
      onFailed job e = [ConsoleError (''Rule update job '' @ jobId job @ '' failed: '' @ e)])
   \<and> MarkDead \<notin> set (onFailed job e) \<and> filter isAlert (onFailed job e) = []
   \<and> MarkDead \<notin> set (onQueueFailed queueName job e)
   \<and> filter isAlert (onQueueFailed queueName job e) = []
   \<and> \<not> success (fst (processRuleGeneration jobData analysis (Inl err) cleanup now s))"
  by (auto simp: onFailed_def onQueueFailed_def followsRetryPolicy_def Let_def
      processRuleGeneration_def generationFailed_def split: sum.splits)

text \<open>
  An instance: after the first failure of a job with three attempts the listener asks
  for a retry after 2000 milliseconds; after the third it only logs.
\<close>

theorem onFailed_effects_witness:
  "attemptsMade retriedJob < 3 \<and> attempts retriedJob = 3
   \<and> onFailed retriedJob ''timeout''
       = [ConsoleError ''Rule update job 44 failed: timeout'', Retry 2000]
   \<and> followsRetryPolicy 1000 retriedJob (onFailed retriedJob ''timeout'')
   \<and> attempts exhaustedJob = 3 \<and> 3 \<le> attemptsMade exhaustedJob
   \<and> onFailed exhaustedJob ''timeout'' = [ConsoleError ''Rule update job 42 failed: timeout'']"
  using onFailed_effects [of retriedJob "''timeout''"]
    onFailed_effects [of exhaustedJob "''timeout''"]
  by (simp add: retriedJob_def exhaustedJob_def followsRetryPolicy_def onFailed_def)

text \<open>
  Claim C2 as stated fails: for a job that has used its three attempts, neither
  listener marks the job dead or emits an alert.
\<close>

theorem exhausted_job_no_alert:
  "\<not> followsRetryPolicy 1000 exhaustedJob (onFailed exhaustedJob ''timeout'')
   \<and> \<not> followsRetryPolicy 1000 exhaustedJob (onQueueFailed ''rule-generation'' exhaustedJob ''timeout'')"
  by (simp add: followsRetryPolicy_def exhaustedJob_def onFailed_def onQueueFailed_def)

subsection \<open>Lanes\<close>













section \<open>SchedulerService\<close>

lemma fire_enabled_starts:
  "map_of (scheduledTasks sch) taskName = Some task \<Longrightarrow> enabled task \<Longrightarrow>
   invocationsInProgress taskName (fire taskName now sch)
     = invocationsInProgress taskName sch + 1"
  by (simp add: fire_def invocationsInProgress_def schedulerLogLine_def)

text \<open>
  Claim C4 against \<open>SchedulerService.scheduleTask\<close>. The daily analysis is fired,
  and fired again (by the schedule, or by \<open>triggerTask\<close>) before the first invocation
  has settled: both invocations are in progress, the run count is 2, and the log holds
  two lines \<open>Executing scheduled task\<close> and no line about a skipped firing.
\<close>

theorem overlapping_firings_both_run:
  "invocationsInProgress ''daily-trend-analysis''
     (fire ''daily-trend-analysis'' 2000 (fire ''daily-trend-analysis'' 1000 dailyScheduler)) = 2
   \<and> invocationsInProgress ''daily-trend-analysis''
       (snd (triggerTask ''daily-trend-analysis'' 2000
               (fire ''daily-trend-analysis'' 1000 dailyScheduler))) = 2
   \<and> map_option runCount
       (map_of (scheduledTasks
                  (fire ''daily-trend-analysis'' 2000
                     (fire ''daily-trend-analysis'' 1000 dailyScheduler)))
          ''daily-trend-analysis'') = Some 2
   \<and> schedulerLog
       (fire ''daily-trend-analysis'' 2000 (fire ''daily-trend-analysis'' 1000 dailyScheduler))
       = [Info ''Task scheduled: daily-trend-analysis'',
          Info ''Executing scheduled task: daily-trend-analysis'',
          Info ''Executing scheduled task: daily-trend-analysis'']"
  by (simp add: invocationsInProgress_def fire_def triggerTask_def dailyScheduler_def
      scheduleTask_def newSchedulerService_def schedulerLogLine_def getNextRunTime_def)

end
